theory Spec2Isabelle
  imports Main "HOL-Library.Multiset" "HOL-Library.Word"
begin

section \<open>Data model\<close>

text \<open>
  The application keeps four document collections (users, posts, conversations, messages).
  A collection is modelled as the list of its documents; a document identifier
  (\<open>_id\<close>, an ObjectId) is a natural number.  Only the fields that the route handlers
  read or write are kept.  Dates are integers (milliseconds).
\<close>

type_synonym oid = nat

text \<open>
  Text that users supply (the content of a message, the text of a post) is a JavaScript
  string: a sequence of UTF-16 code units.  \<open>str.length\<close> is the number of code units; a
  character outside the Basic Multilingual Plane takes two units, a surrogate pair.
  \<open>ascii\<close> writes a string of ASCII characters as code units.  Names, file names and the
  texts of the responses are only compared and concatenated and stay plain strings.
\<close>

type_synonym js_string = "16 word list"

definition ascii :: "string \<Rightarrow> js_string" where
  "ascii s = map (\<lambda>c. word_of_nat (of_char c)) s"

text \<open>models/User.js\<close>

record user =
  u_id :: oid
  username :: string
  profilePicture :: "string option"
  followers :: "oid list"
  following :: "oid list"

text \<open>models/Post.js: an embedded like, and the post with its denormalised counter.\<close>

record like =
  like_user :: oid
  like_createdAt :: int

record post =
  p_id :: oid
  p_text :: js_string
  isRichText :: bool
  p_image :: "string option"
  author :: oid
  likes :: "like list"
  likesCount :: int
  p_createdAt :: int

text \<open>models/Conversation.js\<close>

record conversation =
  c_id :: oid
  participants :: "oid list"
  lastMessage :: "oid option"
  lastActivity :: int

text \<open>models/Message.js\<close>

datatype message_type = TextMessage | ImageMessage

record message =
  m_id :: oid
  m_conversation :: oid
  sender :: oid
  content :: js_string
  m_image :: "string option"
  messageType :: message_type
  isDeleted :: bool
  deletedAt :: "int option"
  createdAt :: int

record db =
  users :: "user list"
  posts :: "post list"
  conversations :: "conversation list"
  messages :: "message list"

text \<open>
  A handler answers with \<open>res.status(code).json({message: ...})\<close> on its failure paths:
  the status code and the message text.  Status 400 is the spec's ValidationError, 403
  PermissionDenied, 404 NotFound, 500 ServerError.
\<close>

datatype http_error = HttpError nat string

definition failed_with :: "nat \<Rightarrow> http_error + 'a \<Rightarrow> bool" where
  "failed_with code r = (case r of Inl (HttpError c msg) \<Rightarrow> c = code | Inr body \<Rightarrow> False)"

subsection \<open>Queries of the document store\<close>

text \<open>\<open>Model.findById(id)\<close>: the document with that \<open>_id\<close>, or null.\<close>

definition findById :: "('a \<Rightarrow> oid) \<Rightarrow> 'a list \<Rightarrow> oid \<Rightarrow> 'a option" where
  "findById ident docs i = find (\<lambda>d. ident d = i) docs"

text \<open>\<open>User.findOne({ username })\<close>\<close>

definition findOne_username :: "user list \<Rightarrow> string \<Rightarrow> user option" where
  "findOne_username us name = find (\<lambda>u. username u = name) us"

text \<open>
  \<open>Model.findByIdAndUpdate(id, update)\<close> changes the one document with that \<open>_id\<close>
  (nothing when there is none); \<open>Model.findByIdAndDelete(id)\<close> removes it.
\<close>

fun findByIdAndUpdate :: "('a \<Rightarrow> oid) \<Rightarrow> 'a list \<Rightarrow> oid \<Rightarrow> ('a \<Rightarrow> 'a) \<Rightarrow> 'a list" where
  "findByIdAndUpdate ident [] i f = []"
| "findByIdAndUpdate ident (d # docs) i f =
     (if ident d = i then f d # docs else d # findByIdAndUpdate ident docs i f)"

fun findByIdAndDelete :: "('a \<Rightarrow> oid) \<Rightarrow> 'a list \<Rightarrow> oid \<Rightarrow> 'a list" where
  "findByIdAndDelete ident [] i = []"
| "findByIdAndDelete ident (d # docs) i =
     (if ident d = i then docs else d # findByIdAndDelete ident docs i)"

section \<open>The mutual-follow gate (routes/messages: checkMutualFollow)\<close>

text \<open>
  \<^verbatim>\<open>
  const checkMutualFollow = async (userId1, userId2) => {
    const user1 = await User.findById(userId1);
    const user2 = await User.findById(userId2);
    if (!user1 || !user2) return false;
    const user1FollowsUser2 = user1.following.includes(userId2);
    const user2FollowsUser1 = user2.following.includes(userId1);
    return user1FollowsUser2 && user2FollowsUser1;
  };
  \<close>
\<close>

definition checkMutualFollow :: "user list \<Rightarrow> oid \<Rightarrow> oid \<Rightarrow> bool" where
  "checkMutualFollow us userId1 userId2 =
     (case findById u_id us userId1 of
        None \<Rightarrow> False
      | Some user1 \<Rightarrow>
          (case findById u_id us userId2 of
             None \<Rightarrow> False
           | Some user2 \<Rightarrow>
               (let user1FollowsUser2 = userId2 \<in> set (following user1);
                    user2FollowsUser1 = userId1 \<in> set (following user2)
                in user1FollowsUser2 \<and> user2FollowsUser1)))"

section \<open>Conversations (models/Conversation.js, routes/messages)\<close>

text \<open>
  \<^verbatim>\<open>
  conversationSchema.statics.findConversation = function(userId1, userId2) {
    return this.findOne({ participants: { $all: [userId1, userId2] } })...
  \<close>
  \<open>$all\<close> selects a document whose array field contains every listed element.
\<close>

definition findConversation :: "conversation list \<Rightarrow> oid \<Rightarrow> oid \<Rightarrow> conversation option" where
  "findConversation cs userId1 userId2 =
     find (\<lambda>c. userId1 \<in> set (participants c) \<and> userId2 \<in> set (participants c)) cs"

text \<open>
  \<open>populate(path, 'username profilePicture')\<close> on an array of references replaces each
  identifier by the referenced user and drops the references that resolve to nothing.
  A stored profile picture is rewritten into an absolute URL under the request's
  \<open>protocol://host\<close> (the parameter \<open>base\<close>); an absent or empty name gives null.
\<close>

record participant_info =
  pi_id :: oid
  pi_username :: string
  pi_profilePicture :: "string option"

definition truthy :: "'a list option \<Rightarrow> bool" where
  "truthy v = (case v of None \<Rightarrow> False | Some s \<Rightarrow> s \<noteq> [])"

definition upload_url :: "string \<Rightarrow> string \<Rightarrow> string option \<Rightarrow> string option" where
  "upload_url base dir v =
     (case v of None \<Rightarrow> None
      | Some f \<Rightarrow> if f = [] then None else Some (base @ dir @ f))"

definition format_user :: "string \<Rightarrow> user \<Rightarrow> participant_info" where
  "format_user base p =
     \<lparr>pi_id = u_id p, pi_username = username p,
      pi_profilePicture = upload_url base ''/uploads/profiles/'' (profilePicture p)\<rparr>"

definition populate_users :: "user list \<Rightarrow> oid list \<Rightarrow> user list" where
  "populate_users us ids = List.map_filter (findById u_id us) ids"

record conversation_response =
  cr_conversationId :: oid
  cr_participants :: "participant_info list"

text \<open>
  \<open>POST /conversation/:username\<close>.  \<open>newId\<close> is the identifier that the store gives to a
  created document and \<open>now\<close> the clock (the schema default of \<open>lastActivity\<close>).
\<close>

definition post_conversation ::
  "string \<Rightarrow> db \<Rightarrow> oid \<Rightarrow> string \<Rightarrow> oid \<Rightarrow> int \<Rightarrow> (http_error + conversation_response) \<times> db" where
  "post_conversation base st currentUserId uname newId now =
     (case findOne_username (users st) uname of
        None \<Rightarrow> (Inl (HttpError 404 ''Usuario no encontrado''), st)
      | Some targetUser \<Rightarrow>
          (let canChat = checkMutualFollow (users st) currentUserId (u_id targetUser) in
           if \<not> canChat
           then (Inl (HttpError 403 ''No pueden chatear. Deben seguirse mutuamente.''), st)
           else
             (let found = findConversation (conversations st) currentUserId (u_id targetUser);
                  conv = (case found of
                            Some c \<Rightarrow> c
                          | None \<Rightarrow> \<lparr>c_id = newId,
                                      participants = [currentUserId, u_id targetUser],
                                      lastMessage = None, lastActivity = now\<rparr>);
                  st' = (case found of
                           Some c \<Rightarrow> st
                         | None \<Rightarrow> st\<lparr>conversations := conversations st @ [conv]\<rparr>)
              in (Inr \<lparr>cr_conversationId = c_id conv,
                       cr_participants =
                         map (format_user base) (populate_users (users st) (participants conv))\<rparr>,
                  st'))))"

section \<open>Message history (routes/messages: GET /conversation/:conversationId/messages)\<close>

text \<open>
  \<^verbatim>\<open>
  Message.find({ conversation: conversationId, isDeleted: false })
    .populate('sender', 'username profilePicture')
    .sort({ createdAt: -1 }).limit(limit * 1).skip((page - 1) * limit)
  \<close>
  The store sorts, then skips, then limits, whatever the order of the calls; a limit of
  0 means no limit.  The order among equal \<open>createdAt\<close> is the store's choice; the model
  takes the stable one.
\<close>

definition find_messages :: "message list \<Rightarrow> oid \<Rightarrow> nat \<Rightarrow> nat \<Rightarrow> message list" where
  "find_messages ms conversationId lim skp =
     (let sorted_desc = sort_key (\<lambda>m. - createdAt m)
                          (filter (\<lambda>m. m_conversation m = conversationId \<and> \<not> isDeleted m) ms);
          skipped = drop skp sorted_desc
      in if lim = 0 then skipped else take lim skipped)"

record formatted_message =
  f_id :: oid
  f_content :: js_string
  f_image :: "string option"
  f_messageType :: message_type
  f_sender :: participant_info
  f_createdAt :: int
  isOwn :: bool

text \<open>
  The formatting reads \<open>message.sender._id\<close> of the populated sender: when the sender no
  longer exists, populate leaves null and the read throws (None here, a 500 in the
  handler).
\<close>

definition formatMessage :: "string \<Rightarrow> user list \<Rightarrow> oid \<Rightarrow> message \<Rightarrow> formatted_message option" where
  "formatMessage base us currentUserId m =
     (case findById u_id us (sender m) of
        None \<Rightarrow> None
      | Some s \<Rightarrow>
          Some \<lparr>f_id = m_id m, f_content = content m,
                f_image = upload_url base ''/uploads/chat/'' (m_image m),
                f_messageType = messageType m,
                f_sender = format_user base s,
                f_createdAt = createdAt m,
                isOwn = (u_id s = currentUserId)\<rparr>)"

definition server_error :: http_error where
  "server_error = HttpError 500 ''Error del servidor''"

definition no_access :: http_error where
  "no_access = HttpError 403
     (''No tienes acceso a esta conversaci'' @ [CHR 0xC3, CHR 0xB3] @ ''n'')"

text \<open>
  The query parameters \<open>page\<close> and \<open>limit\<close> are optional numbers with defaults 1 and 50
  (non-numeric text is outside the model).  Page 0 with a positive limit asks the store
  for a negative skip, which it refuses.
\<close>

definition get_messages ::
  "string \<Rightarrow> db \<Rightarrow> oid \<Rightarrow> oid \<Rightarrow> nat option \<Rightarrow> nat option \<Rightarrow> http_error + formatted_message list" where
  "get_messages base st currentUserId convId pageQ limitQ =
     (let page = (case pageQ of None \<Rightarrow> 1 | Some p \<Rightarrow> p);
          limit = (case limitQ of None \<Rightarrow> 50 | Some l \<Rightarrow> l)
      in case findById c_id (conversations st) convId of
           None \<Rightarrow> Inl no_access
         | Some conv \<Rightarrow>
             if currentUserId \<notin> set (participants conv) then Inl no_access
             else if (int page - 1) * int limit < 0 then Inl server_error
             else
               (let msgs = find_messages (messages st) convId limit ((page - 1) * limit)
                in case those (map (formatMessage base (users st) currentUserId) (rev msgs)) of
                     None \<Rightarrow> Inl server_error
                   | Some formatted \<Rightarrow> Inr formatted))"

section \<open>Sending and deleting messages (routes/messages)\<close>

text \<open>
  The multipart body of \<open>POST /message\<close>: \<open>conversationId\<close> (None when the field is
  missing or empty, which is what \<open>notEmpty()\<close> rejects), the optional \<open>content\<close>, and
  the name under which the uploaded image was stored (\<open>req.file.filename\<close>).
\<close>

record send_request =
  rq_conversationId :: "oid option"
  rq_content :: "js_string option"
  rq_file :: "string option"

text \<open>
  The express-validator chain:
  \<^verbatim>\<open>
  body('conversationId').notEmpty().withMessage('ID de conversacion requerido'),
  body('content').optional().isLength({ max: 1000 }).withMessage('Mensaje muy largo')
  \<close>
  \<open>isLength\<close> is validator.js's, a library that is not among the sources.  It does not
  compare \<open>str.length\<close> but a count of characters:
  \<^verbatim>\<open>
  const presentationSequences = str.match(/(\uFE0F|\uFE0E)/g) || [];
  const surrogatePairs = str.match(/[\uD800-\uDBFF][\uDC00-\uDFFF]/g) || [];
  const len = str.length - presentationSequences.length - surrogatePairs.length;
  return len >= min && (typeof max === 'undefined' || len <= max);
  \<close>
  so a surrogate pair counts once and a variation selector not at all.
\<close>

definition is_high_surrogate :: "16 word \<Rightarrow> bool" where
  "is_high_surrogate u = (0xD800 \<le> u \<and> u \<le> 0xDBFF)"

definition is_low_surrogate :: "16 word \<Rightarrow> bool" where
  "is_low_surrogate u = (0xDC00 \<le> u \<and> u \<le> 0xDFFF)"

fun surrogatePairs :: "js_string \<Rightarrow> nat" where
  "surrogatePairs (a # b # s) =
     (if is_high_surrogate a \<and> is_low_surrogate b then Suc (surrogatePairs s)
      else surrogatePairs (b # s))"
| "surrogatePairs [a] = 0"
| "surrogatePairs [] = 0"

definition presentationSequences :: "js_string \<Rightarrow> nat" where
  "presentationSequences s = length (filter (\<lambda>u. u = 0xFE0F \<or> u = 0xFE0E) s)"

definition isLength_count :: "js_string \<Rightarrow> nat" where
  "isLength_count s = length s - presentationSequences s - surrogatePairs s"

text \<open>The result of the chain is the list of error messages.\<close>

definition validationResult :: "send_request \<Rightarrow> string list" where
  "validationResult rq =
     (if rq_conversationId rq = None
      then [''ID de conversaci'' @ [CHR 0xC3, CHR 0xB3] @ ''n requerido''] else []) @
     (case rq_content rq of
        None \<Rightarrow> []
      | Some c \<Rightarrow> if isLength_count c > 1000 then [''Mensaje muy largo''] else [])"

text \<open>
  The validators of messageSchema, run by \<open>save()\<close>: \<open>content\<close> is required unless there
  is an image, and \<open>maxlength: 1000\<close> bounds \<open>content.length\<close>, the number of UTF-16 code
  units.  A content that the chain above accepts can fail here (1000 characters of which
  one is a surrogate pair have 1001 units): \<open>save()\<close> throws and the handler answers 500.
\<close>

definition messageSchema_valid :: "message \<Rightarrow> bool" where
  "messageSchema_valid m =
     ((truthy (m_image m) \<or> content m \<noteq> []) \<and> length (content m) \<le> 1000)"

definition post_message ::
  "string \<Rightarrow> db \<Rightarrow> oid \<Rightarrow> send_request \<Rightarrow> oid \<Rightarrow> int \<Rightarrow> (http_error + formatted_message) \<times> db" where
  "post_message base st currentUserId rq newId now =
     (if validationResult rq \<noteq> []
      then (Inl (HttpError 400 (''Datos de entrada no v'' @ [CHR 0xC3, CHR 0xA1] @ ''lidos'')), st)
      else
        (let image = rq_file rq in
         if \<not> truthy (rq_content rq) \<and> \<not> truthy image
         then (Inl (HttpError 400 ''Debe proporcionar contenido o imagen''), st)
         else
           (case rq_conversationId rq of
              None \<Rightarrow> (Inl no_access, st)
            | Some convId \<Rightarrow>
               (case findById c_id (conversations st) convId of
                  None \<Rightarrow> (Inl no_access, st)
                | Some conv \<Rightarrow>
                    if currentUserId \<notin> set (participants conv) then (Inl no_access, st)
                    else
                      (let otherParticipant = find (\<lambda>p. p \<noteq> currentUserId) (participants conv);
                           canChat = (case otherParticipant of
                                        None \<Rightarrow> False
                                      | Some p \<Rightarrow> checkMutualFollow (users st) currentUserId p)
                       in if \<not> canChat
                          then (Inl (HttpError 403
                                  ''Ya no pueden chatear. Verificar seguimiento mutuo.''), st)
                          else
                            (let msg = \<lparr>m_id = newId, m_conversation = convId,
                                        sender = currentUserId,
                                        content = (case rq_content rq of None \<Rightarrow> [] | Some c \<Rightarrow> c),
                                        m_image = image,
                                        messageType = (if truthy image then ImageMessage
                                                       else TextMessage),
                                        isDeleted = False, deletedAt = None, createdAt = now\<rparr>
                             in if \<not> messageSchema_valid msg then (Inl server_error, st)
                                else
                                  (let st' = st\<lparr>messages := messages st @ [msg],
                                                conversations :=
                                                  findByIdAndUpdate c_id (conversations st) convId
                                                    (\<lambda>c. c\<lparr>lastMessage := Some (m_id msg),
                                                            lastActivity := now\<rparr>)\<rparr>
                                   in case formatMessage base (users st) currentUserId msg of
                                        None \<Rightarrow> (Inl server_error, st')
                                      | Some formatted \<Rightarrow>
                                          (Inr (formatted\<lparr>isOwn := True\<rparr>), st'))))))))"

text \<open>
  \<open>DELETE /message/:messageId\<close>
  \<^verbatim>\<open>
  const message = await Message.findById(messageId);
  if (!message) return res.status(404)...
  if (message.sender.toString() !== currentUserId.toString()) return res.status(403)...
  message.isDeleted = true;
  message.deletedAt = new Date();
  await message.save();
  \<close>
  \<open>save()\<close> writes the two modified fields to the stored document of that \<open>_id\<close>.
\<close>

definition delete_message :: "db \<Rightarrow> oid \<Rightarrow> oid \<Rightarrow> int \<Rightarrow> (http_error + string) \<times> db" where
  "delete_message st currentUserId messageId now =
     (case findById m_id (messages st) messageId of
        None \<Rightarrow> (Inl (HttpError 404 ''Mensaje no encontrado''), st)
      | Some msg \<Rightarrow>
          if sender msg \<noteq> currentUserId
          then (Inl (HttpError 403 ''Solo puedes eliminar tus propios mensajes''), st)
          else (Inr ''Mensaje eliminado exitosamente'',
                st\<lparr>messages := findByIdAndUpdate m_id (messages st) messageId
                                  (\<lambda>m. m\<lparr>isDeleted := True, deletedAt := Some now\<rparr>)\<rparr>))"

section \<open>Follow and unfollow (routes/follows)\<close>

text \<open>The update operators \<open>$addToSet\<close> and \<open>$pull\<close> on an array field.\<close>

definition addToSet :: "'a \<Rightarrow> 'a list \<Rightarrow> 'a list" where
  "addToSet x xs = (if x \<in> set xs then xs else xs @ [x])"

definition pull :: "'a \<Rightarrow> 'a list \<Rightarrow> 'a list" where
  "pull x xs = removeAll x xs"

record follow_response =
  fr_message :: string
  isFollowing :: bool

text \<open>
  \<open>POST /follow/:username\<close>.  \<open>currentUser.following\<close> is read without a null check: a
  requester whose record is gone makes the handler throw (500).
\<close>

definition post_follow :: "db \<Rightarrow> oid \<Rightarrow> string \<Rightarrow> (http_error + follow_response) \<times> db" where
  "post_follow st currentUserId uname =
     (case findOne_username (users st) uname of
        None \<Rightarrow> (Inl (HttpError 404 ''Usuario no encontrado''), st)
      | Some userToFollow \<Rightarrow>
          if u_id userToFollow = currentUserId
          then (Inl (HttpError 400 ''No puedes seguirte a ti mismo''), st)
          else
            (case findById u_id (users st) currentUserId of
               None \<Rightarrow> (Inl server_error, st)
             | Some currentUser \<Rightarrow>
                 if u_id userToFollow \<in> set (following currentUser)
                 then (Inl (HttpError 400 ''Ya sigues a este usuario''), st)
                 else
                   (let us1 = findByIdAndUpdate u_id (users st) currentUserId
                                (\<lambda>u. u\<lparr>following := addToSet (u_id userToFollow) (following u)\<rparr>);
                        us2 = findByIdAndUpdate u_id us1 (u_id userToFollow)
                                (\<lambda>u. u\<lparr>followers := addToSet currentUserId (followers u)\<rparr>)
                    in (Inr \<lparr>fr_message = ''Usuario seguido exitosamente'', isFollowing = True\<rparr>,
                        st\<lparr>users := us2\<rparr>))))"

text \<open>\<open>DELETE /unfollow/:username\<close>: no check of the current state, two \<open>$pull\<close>s.\<close>

definition delete_unfollow :: "db \<Rightarrow> oid \<Rightarrow> string \<Rightarrow> (http_error + follow_response) \<times> db" where
  "delete_unfollow st currentUserId uname =
     (case findOne_username (users st) uname of
        None \<Rightarrow> (Inl (HttpError 404 ''Usuario no encontrado''), st)
      | Some userToUnfollow \<Rightarrow>
          (let us1 = findByIdAndUpdate u_id (users st) currentUserId
                       (\<lambda>u. u\<lparr>following := pull (u_id userToUnfollow) (following u)\<rparr>);
               us2 = findByIdAndUpdate u_id us1 (u_id userToUnfollow)
                       (\<lambda>u. u\<lparr>followers := pull currentUserId (followers u)\<rparr>)
           in (Inr \<lparr>fr_message = ''Dejaste de seguir al usuario'', isFollowing = False\<rparr>,
               st\<lparr>users := us2\<rparr>)))"

section \<open>Posts and likes (models/Post.js, routes/posts)\<close>

text \<open>
  \<^verbatim>\<open>
  postSchema.pre('save', function(next) {
    if (this.isModified('likes')) { this.likesCount = this.likes.length; }
    next();
  });
  \<close>
  The flag says whether the \<open>likes\<close> path of the in-memory document was modified since
  it was loaded.
\<close>

definition pre_save :: "bool \<Rightarrow> post \<Rightarrow> post" where
  "pre_save likesModified p =
     (if likesModified then p\<lparr>likesCount := int (length (likes p))\<rparr> else p)"

text \<open>
  The model methods take the user identifier, which may be null or undefined (None).
  \<open>addLike\<close> and \<open>removeLike\<close> mutate the document and return a boolean: here the
  boolean and the document.
\<close>

definition hasUserLiked :: "post \<Rightarrow> oid option \<Rightarrow> bool" where
  "hasUserLiked p userId =
     (case userId of
        None \<Rightarrow> False
      | Some u \<Rightarrow> list_ex (\<lambda>l. like_user l = u) (likes p))"

definition addLike :: "post \<Rightarrow> oid option \<Rightarrow> int \<Rightarrow> bool \<times> post" where
  "addLike p userId now =
     (case userId of
        None \<Rightarrow> (False, p)
      | Some u \<Rightarrow>
          (case find (\<lambda>l. like_user l = u) (likes p) of
             Some existingLike \<Rightarrow> (False, p)
           | None \<Rightarrow> (True, p\<lparr>likes := likes p @ [\<lparr>like_user = u, like_createdAt = now\<rparr>]\<rparr>)))"

definition removeLike :: "post \<Rightarrow> oid option \<Rightarrow> bool \<times> post" where
  "removeLike p userId =
     (case userId of
        None \<Rightarrow> (False, p)
      | Some u \<Rightarrow>
          (let initialLength = length (likes p);
               p' = p\<lparr>likes := filter (\<lambda>l. like_user l \<noteq> u) (likes p)\<rparr>;
               removed = (length (likes p') < initialLength)
           in (removed, p')))"

text \<open>
  \<open>post.save()\<close> of a loaded document: the pre-save hook, then the document replaces the
  stored one of the same \<open>_id\<close>.
\<close>

definition save_post :: "bool \<Rightarrow> post \<Rightarrow> post list \<Rightarrow> post list" where
  "save_post likesModified p ps =
     findByIdAndUpdate p_id ps (p_id p) (\<lambda>stored. pre_save likesModified p)"

record like_data =
  ld_postId :: oid
  ld_likesCount :: int
  ld_hasLiked :: bool
  ld_recentLikes :: "string list"
  ld_by :: string

text \<open>
  \<open>post.likes.slice(-3).map(like => like.user.username).reverse()\<close> on the populated
  likes: a liker that no longer exists is null, and reading its username throws.
\<close>

definition recentLikes :: "user list \<Rightarrow> post \<Rightarrow> string list option" where
  "recentLikes us p =
     map_option rev
       (those (map (\<lambda>l. map_option username (findById u_id us (like_user l)))
                   (drop (length (likes p) - 3) (likes p))))"

text \<open>
  \<open>POST /:id/like\<close> and \<open>DELETE /:id/like\<close>.  \<open>reqUser\<close> is \<open>req.user\<close>, the
  authenticated user.
\<close>

definition post_like :: "db \<Rightarrow> user \<Rightarrow> oid \<Rightarrow> int \<Rightarrow> (http_error + like_data) \<times> db" where
  "post_like st reqUser postId now =
     (let userId = Some (u_id reqUser) in
      case findById p_id (posts st) postId of
        None \<Rightarrow> (Inl (HttpError 404 ''Post no encontrado''), st)
      | Some p \<Rightarrow>
          if hasUserLiked p userId
          then (Inl (HttpError 400 ''Ya has dado like a este post''), st)
          else
            (case addLike p userId now of
               (likeAdded, p1) \<Rightarrow>
                 if \<not> likeAdded
                 then (Inl (HttpError 400
                         (''No se pudo a'' @ [CHR 0xC3, CHR 0xB1] @ ''adir el like'')), st)
                 else
                   (let p2 = pre_save True p1;
                        st' = st\<lparr>posts := save_post True p1 (posts st)\<rparr>
                    in case recentLikes (users st) p2 of
                         None \<Rightarrow> (Inl server_error, st')
                       | Some names \<Rightarrow>
                           (Inr \<lparr>ld_postId = p_id p2, ld_likesCount = likesCount p2,
                                 ld_hasLiked = True, ld_recentLikes = names,
                                 ld_by = username reqUser\<rparr>, st'))))"

definition delete_like :: "db \<Rightarrow> user \<Rightarrow> oid \<Rightarrow> (http_error + like_data) \<times> db" where
  "delete_like st reqUser postId =
     (let userId = Some (u_id reqUser) in
      case findById p_id (posts st) postId of
        None \<Rightarrow> (Inl (HttpError 404 ''Post no encontrado''), st)
      | Some p \<Rightarrow>
          if \<not> hasUserLiked p userId
          then (Inl (HttpError 400 ''No has dado like a este post''), st)
          else
            (case removeLike p userId of
               (likeRemoved, p1) \<Rightarrow>
                 if \<not> likeRemoved
                 then (Inl (HttpError 400 ''No se pudo quitar el like''), st)
                 else
                   (let p2 = pre_save True p1;
                        st' = st\<lparr>posts := save_post True p1 (posts st)\<rparr>
                    in case recentLikes (users st) p2 of
                         None \<Rightarrow> (Inl server_error, st')
                       | Some names \<Rightarrow>
                           (Inr \<lparr>ld_postId = p_id p2, ld_likesCount = likesCount p2,
                                 ld_hasLiked = False, ld_recentLikes = names,
                                 ld_by = username reqUser\<rparr>, st'))))"

text \<open>
  Publishing, \<open>POST /\<close>: the text is required and trimmed, the schema allows at most
  5000 code units (a longer text makes \<open>save()\<close> throw), the new document takes the schema
  defaults \<open>likes = []\<close> and \<open>likesCount = 0\<close>.  The response reads the username of the
  populated author (a 500 when the author's record is gone) and otherwise repeats the
  stored post.

  \<open>String.prototype.trim\<close> strips the white space and the line terminators of
  ECMAScript from both ends: TAB, VT, FF, SP, NBSP, ZWNBSP (U+FEFF), the other space
  separators (U+1680, U+2000 to U+200A, U+202F, U+205F, U+3000), and LF, CR, U+2028,
  U+2029.  Each is one code unit.
\<close>

definition is_space :: "16 word \<Rightarrow> bool" where
  "is_space u =
     (u \<in> set [0x0009, 0x000A, 0x000B, 0x000C, 0x000D, 0x0020, 0x00A0, 0x1680,
                0x2028, 0x2029, 0x202F, 0x205F, 0x3000, 0xFEFF]
      \<or> (0x2000 \<le> u \<and> u \<le> 0x200A))"

definition trim :: "js_string \<Rightarrow> js_string" where
  "trim s = rev (dropWhile is_space (rev (dropWhile is_space s)))"

definition publish ::
  "db \<Rightarrow> user \<Rightarrow> js_string option \<Rightarrow> string option \<Rightarrow> string option \<Rightarrow> oid \<Rightarrow> int
     \<Rightarrow> (http_error + post) \<times> db" where
  "publish st reqUser textField richField file newId now =
     (case textField of
        None \<Rightarrow> (Inl (HttpError 400 ''El contenido es requerido''), st)
      | Some t \<Rightarrow>
          if t = [] \<or> trim t = []
          then (Inl (HttpError 400 ''El contenido es requerido''), st)
          else
            (let p = \<lparr>p_id = newId, p_text = trim t,
                      isRichText = (richField = Some ''true''),
                      p_image = map_option (\<lambda>f. ''/uploads/'' @ f) file,
                      author = u_id reqUser, likes = [], likesCount = 0,
                      p_createdAt = now\<rparr>
             in if length (p_text p) > 5000 then (Inl server_error, st)
                else
                  (let st' = st\<lparr>posts := posts st @ [pre_save False p]\<rparr>
                   in case findById u_id (users st) (author p) of
                        None \<Rightarrow> (Inl server_error, st')
                      | Some a \<Rightarrow> (Inr (pre_save False p), st'))))"

section \<open>Account deletion (routes/auth: DELETE /delete-account)\<close>

text \<open>
  Step 2, \<open>Post.updateMany({'likes.user': userId}, {$pull: {likes: {user: userId}}})\<close>,
  and step 3:
  \<^verbatim>\<open>
  // 3. Actualizar likesCount en todos los posts afectados
  const postsWithLikes = await Post.find({ 'likes.user': { $exists: true } });
  for (const post of postsWithLikes) {
    post.likesCount = post.likes.length;
    await post.save();
  }
  \<close>
  The filter \<open>'likes.user': {$exists: true}\<close> selects the posts that have at least one
  like.  The save writes \<open>likesCount\<close> only (the likes path is not modified).
\<close>

definition pull_likes :: "oid \<Rightarrow> post list \<Rightarrow> post list" where
  "pull_likes userId ps =
     map (\<lambda>p. if list_ex (\<lambda>l. like_user l = userId) (likes p)
               then p\<lparr>likes := filter (\<lambda>l. like_user l \<noteq> userId) (likes p)\<rparr>
               else p) ps"

definition update_likesCounts :: "post list \<Rightarrow> post list" where
  "update_likesCounts ps =
     (let postsWithLikes = filter (\<lambda>p. likes p \<noteq> []) ps
      in fold (\<lambda>p acc. save_post False (p\<lparr>likesCount := int (length (likes p))\<rparr>) acc)
              postsWithLikes ps)"

text \<open>
  Step 5, for each conversation of the user (the list is read once, before the loop):
  \<^verbatim>\<open>
  await Message.updateMany({ conversation: conversation._id, sender: userId },
    { isDeleted: true, deletedAt: new Date(), content: '[Usuario eliminado]' });
  if (conversation.participants.length === 2) {
    await Message.deleteMany({ conversation: conversation._id });
    await Conversation.findByIdAndDelete(conversation._id);
  } else {
    await Conversation.findByIdAndUpdate(conversation._id,
      { $pull: { participants: userId } });
  }
  \<close>
  The loop state is the pair of the conversation and message collections.
\<close>

definition redact :: "int \<Rightarrow> message \<Rightarrow> message" where
  "redact now m = m\<lparr>isDeleted := True, deletedAt := Some now, content := ascii ''[Usuario eliminado]''\<rparr>"

definition remove_from_conversation ::
  "oid \<Rightarrow> int \<Rightarrow> conversation \<Rightarrow> conversation list \<times> message list
     \<Rightarrow> conversation list \<times> message list" where
  "remove_from_conversation userId now conv cm =
     (case cm of (cs, ms) \<Rightarrow>
        (let ms1 = map (\<lambda>m. if m_conversation m = c_id conv \<and> sender m = userId
                             then redact now m else m) ms
         in if length (participants conv) = 2
            then (findByIdAndDelete c_id cs (c_id conv),
                  filter (\<lambda>m. m_conversation m \<noteq> c_id conv) ms1)
            else (findByIdAndUpdate c_id cs (c_id conv)
                    (\<lambda>c. c\<lparr>participants := pull userId (participants c)\<rparr>),
                  ms1)))"

definition delete_account :: "db \<Rightarrow> oid \<Rightarrow> int \<Rightarrow> (http_error + string) \<times> db" where
  "delete_account st userId now =
     (let ps1 = filter (\<lambda>p. author p \<noteq> userId) (posts st);
          ps2 = pull_likes userId ps1;
          ps3 = update_likesCounts ps2;
          us1 = map (\<lambda>u. if userId \<in> set (followers u)
                           then u\<lparr>followers := pull userId (followers u)\<rparr> else u) (users st);
          us2 = map (\<lambda>u. if userId \<in> set (following u)
                           then u\<lparr>following := pull userId (following u)\<rparr> else u) us1;
          userConversations = filter (\<lambda>c. userId \<in> set (participants c)) (conversations st);
          cm = fold (remove_from_conversation userId now) userConversations
                 (conversations st, messages st);
          us3 = findByIdAndDelete u_id us2 userId
      in (Inr ''Cuenta eliminada exitosamente'',
          \<lparr>users = us3, posts = ps3, conversations = fst cm, messages = snd cm\<rparr>))"

section \<open>An example store\<close>

text \<open>
  alice and bob follow each other; carol follows bob only; dave follows nobody.
  Conversation 10 is between alice and bob, conversation 11 has three participants.
\<close>

definition alice :: user where
  "alice = \<lparr>u_id = 1, username = ''alice'', profilePicture = None,
            followers = [2], following = [2]\<rparr>"

definition bob :: user where
  "bob = \<lparr>u_id = 2, username = ''bob'', profilePicture = Some ''bob.png'',
          followers = [1, 3], following = [1]\<rparr>"

definition carol :: user where
  "carol = \<lparr>u_id = 3, username = ''carol'', profilePicture = None,
            followers = [], following = [2]\<rparr>"

definition dave :: user where
  "dave = \<lparr>u_id = 4, username = ''dave'', profilePicture = None,
           followers = [], following = []\<rparr>"

definition conv10 :: conversation where
  "conv10 = \<lparr>c_id = 10, participants = [1, 2], lastMessage = Some 21, lastActivity = 200\<rparr>"

definition conv11 :: conversation where
  "conv11 = \<lparr>c_id = 11, participants = [1, 2, 3], lastMessage = Some 23, lastActivity = 400\<rparr>"

definition text_message :: "oid \<Rightarrow> oid \<Rightarrow> oid \<Rightarrow> string \<Rightarrow> int \<Rightarrow> message" where
  "text_message i c s t at =
     \<lparr>m_id = i, m_conversation = c, sender = s, content = ascii t, m_image = None,
      messageType = TextMessage, isDeleted = False, deletedAt = None, createdAt = at\<rparr>"

definition example_messages :: "message list" where
  "example_messages =
     [text_message 20 10 1 ''hi'' 100,
      text_message 21 10 2 ''hello'' 200,
      (text_message 24 10 1 ''typo'' 150)\<lparr>isDeleted := True, deletedAt := Some 160\<rparr>,
      text_message 22 11 3 ''all'' 300,
      text_message 23 11 1 ''yes'' 400]"

definition post30 :: post where
  "post30 = \<lparr>p_id = 30, p_text = ascii ''first'', isRichText = False, p_image = None, author = 2,
             likes = [\<lparr>like_user = 1, like_createdAt = 50\<rparr>], likesCount = 1,
             p_createdAt = 40\<rparr>"

definition example_db :: db where
  "example_db = \<lparr>users = [alice, bob, carol, dave], posts = [post30],
                 conversations = [conv10, conv11], messages = example_messages\<rparr>"

text \<open>
  The store after bob has unfollowed alice (the conversation between them stays), and a
  send request to conversation 10 with a given text: \<open>a\<close> repeated, the emoji U+1F600 (the
  surrogate pair D83D DE00) repeated.
\<close>

definition unfollowed_db :: db where
  "unfollowed_db = snd (delete_unfollow example_db 2 ''alice'')"

definition text_request :: "js_string \<Rightarrow> send_request" where
  "text_request c = \<lparr>rq_conversationId = Some 10, rq_content = Some c, rq_file = None\<rparr>"

definition letters :: "nat \<Rightarrow> js_string" where
  "letters n = replicate n 0x61"

definition emojis :: "nat \<Rightarrow> js_string" where
  "emojis n = concat (replicate n [0xD83D, 0xDE00])"

text \<open>
  A store in which the two lists of a follow edge disagree: dave's followers list names
  alice, alice's following list does not name dave.  It is what stays when alice has
  followed dave and, of a later unfollow, only the first update reached the store.
\<close>

definition half_unfollowed_db :: db where
  "half_unfollowed_db = example_db\<lparr>users := [alice, bob, carol, dave\<lparr>followers := [1]\<rparr>]\<rparr>"

section \<open>Verified properties\<close>

subsection \<open>Facts about the store queries\<close>

lemmas example_defs = example_db_def alice_def bob_def carol_def dave_def conv10_def conv11_def
  example_messages_def text_message_def post30_def

lemma find_not_None_iff: "(find P xs \<noteq> None) = (\<exists>x\<in>set xs. P x)"
  by (induction xs) auto

lemma findById_split:
  "findById ident xs i = Some d \<Longrightarrow>
     \<exists>pre post. xs = pre @ d # post \<and> (\<forall>x\<in>set pre. ident x \<noteq> i) \<and> ident d = i \<and>
                findByIdAndUpdate ident xs i f = pre @ f d # post"
proof (induction xs)
  case Nil
  then show ?case by (simp add: findById_def)
next
  case (Cons x xs)
  show ?case
  proof (cases "ident x = i")
    case True
    with Cons.prems have "x = d" by (simp add: findById_def)
    with True have "x # xs = [] @ d # xs \<and> (\<forall>y\<in>set []. ident y \<noteq> i) \<and> ident d = i \<and>
        findByIdAndUpdate ident (x # xs) i f = [] @ f d # xs" by simp
    then show ?thesis by blast
  next
    case False
    with Cons.prems have "findById ident xs i = Some d" by (simp add: findById_def)
    from Cons.IH [OF this] obtain pre post where
      "xs = pre @ d # post" "\<forall>x\<in>set pre. ident x \<noteq> i" "ident d = i"
      "findByIdAndUpdate ident xs i f = pre @ f d # post" by blast
    with False have "x # xs = (x # pre) @ d # post \<and> (\<forall>y\<in>set (x # pre). ident y \<noteq> i) \<and> ident d = i \<and>
        findByIdAndUpdate ident (x # xs) i f = (x # pre) @ f d # post" by simp
    then show ?thesis by blast
  qed
qed

lemma findByIdAndUpdate_noop:
  "findById ident xs i = Some d \<Longrightarrow> f d = d \<Longrightarrow> findByIdAndUpdate ident xs i f = xs"
  using findById_split [of ident xs i d f] by auto

lemma findByIdAndUpdate_absent:
  "findById ident xs i = None \<Longrightarrow> findByIdAndUpdate ident xs i f = xs"
  by (induction xs) (auto simp: findById_def split: if_splits)

lemma findById_distinct:
  "distinct (map ident xs) \<Longrightarrow> d \<in> set xs \<Longrightarrow> findById ident xs (ident d) = Some d"
  by (induction xs) (auto simp: findById_def)

lemma find_mem: "find P xs = Some x \<Longrightarrow> x \<in> set xs \<and> P x"
  by (induction xs) (auto split: if_splits)

lemma findById_update_same:
  "findById ident xs i = Some d \<Longrightarrow> ident (f d) = i \<Longrightarrow>
     findById ident (findByIdAndUpdate ident xs i f) i = Some (f d)"
  by (induction xs) (auto simp: findById_def split: if_splits)

lemma findById_update_other:
  "(\<And>d. ident (f d) = ident d) \<Longrightarrow> k \<noteq> i \<Longrightarrow>
     findById ident (findByIdAndUpdate ident xs i f) k = findById ident xs k"
  by (induction xs) (auto simp: findById_def)

lemma findById_delete_other:
  "k \<noteq> i \<Longrightarrow> findById ident (findByIdAndDelete ident xs i) k = findById ident xs k"
  by (induction xs) (auto simp: findById_def)

lemma set_findByIdAndDelete: "set (findByIdAndDelete ident xs i) \<subseteq> set xs"
  by (induction xs) auto

lemma findById_delete_same:
  "distinct (map ident xs) \<Longrightarrow> findById ident (findByIdAndDelete ident xs i) i = None"
proof (induction xs)
  case Nil
  then show ?case by (simp add: findById_def)
next
  case (Cons x xs)
  show ?case
  proof (cases "ident x = i")
    case True
    from Cons.prems have "ident x \<notin> ident ` set xs" by simp
    with True have "\<forall>y\<in>set xs. ident y \<noteq> i" by (metis imageI)
    with True show ?thesis by (simp add: findById_def find_None_iff)
  next
    case False
    with Cons show ?thesis by (simp add: findById_def)
  qed
qed

lemma map_ident_update:
  "(\<And>d. ident (f d) = ident d) \<Longrightarrow>
     map ident (findByIdAndUpdate ident xs i f) = map ident xs"
  by (induction xs) auto

lemma distinct_delete:
  "distinct (map ident xs) \<Longrightarrow> distinct (map ident (findByIdAndDelete ident xs i))"
  using set_findByIdAndDelete [of ident _ i] by (induction xs) auto


subsection \<open>The mutual-follow gate\<close>

text \<open>
  C1. The mutual-follow gate is symmetric: for all users A and B (present in the store or
  not), \<open>checkMutualFollow(A, B)\<close> and \<open>checkMutualFollow(B, A)\<close> return the same boolean.
\<close>

theorem C1_checkMutualFollow_symmetric:
  "checkMutualFollow us a b = checkMutualFollow us b a"
  by (auto simp: checkMutualFollow_def split: option.splits)

theorem C1_witness:
  "checkMutualFollow (users example_db) 1 2 \<and> checkMutualFollow (users example_db) 2 1
   \<and> checkMutualFollow (users example_db) 3 2 = checkMutualFollow (users example_db) 2 3"
  using C1_checkMutualFollow_symmetric [of "users example_db" 1 2]
        C1_checkMutualFollow_symmetric [of "users example_db" 3 2]
  by (simp add: example_defs checkMutualFollow_def findById_def)

subsection \<open>Get-or-create conversation\<close>

text \<open>
  C3. When the target user B exists and the requester A and B are not mutual followers,
  \<open>POST /conversation/:username\<close> answers 403 (PermissionDenied) and returns the store as
  it was: no conversation record is created.
\<close>

theorem C3_not_mutual_forbidden:
  assumes "findOne_username (users st) uname = Some b"
      and "\<not> checkMutualFollow (users st) a (u_id b)"
  shows "post_conversation base st a uname newId now =
           (Inl (HttpError 403 ''No pueden chatear. Deben seguirse mutuamente.''), st)"
  using assms by (simp add: post_conversation_def)

theorem C3_witness:
  "findOne_username (users example_db) ''dave'' = Some dave
   \<and> \<not> checkMutualFollow (users example_db) 3 (u_id dave)
   \<and> post_conversation ''http://h'' example_db 3 ''dave'' 12 500 =
       (Inl (HttpError 403 ''No pueden chatear. Deben seguirse mutuamente.''), example_db)"
  using C3_not_mutual_forbidden [of example_db "''dave''" dave 3 "''http://h''" 12 500]
  by (simp add: example_defs findOne_username_def checkMutualFollow_def findById_def)

text \<open>
  C4, as stated, fails: the lookup selects with \<open>$all\<close>, which asks that the participant
  list contains both users, not that it equals the pair.  A conversation of alice, bob
  and carol is returned for the pair (alice, bob); the conversation of alice and bob is
  returned for the pair (alice, alice).
\<close>

theorem C4_counterexample:
  "findConversation [conv11] 1 2 = Some conv11 \<and> set (participants conv11) \<noteq> {1, 2}
   \<and> findConversation [conv10] 1 1 = Some conv10 \<and> set (participants conv10) \<noteq> {1, 1}"
  by (auto simp: findConversation_def conv11_def conv10_def)

text \<open>
  C4 (amended).  The conversation lookup returns a conversation if and only if the store
  holds a conversation whose participant list contains both A and B, and the result does
  not depend on the order of A and B.  When every stored conversation has exactly two
  participants and A differs from B, that is the case if and only if the store holds a
  conversation whose participant set equals \<open>{A, B}\<close>.
\<close>

theorem C4_findConversation_contains:
  "((findConversation cs a b \<noteq> None) =
      (\<exists>c\<in>set cs. a \<in> set (participants c) \<and> b \<in> set (participants c)))
   \<and> findConversation cs a b = findConversation cs b a
   \<and> ((\<forall>c\<in>set cs. length (participants c) = 2) \<and> a \<noteq> b \<longrightarrow>
        (findConversation cs a b \<noteq> None) = (\<exists>c\<in>set cs. set (participants c) = {a, b}))"
proof (intro conjI impI)
  show contains: "(findConversation cs a b \<noteq> None) =
      (\<exists>c\<in>set cs. a \<in> set (participants c) \<and> b \<in> set (participants c))"
    unfolding findConversation_def by (rule find_not_None_iff)
  show "findConversation cs a b = findConversation cs b a"
    unfolding findConversation_def by (rule arg_cong2 [where f = find]) auto
  assume two: "(\<forall>c\<in>set cs. length (participants c) = 2) \<and> a \<noteq> b"
  have "(a \<in> set (participants c) \<and> b \<in> set (participants c)) = (set (participants c) = {a, b})"
    if "c \<in> set cs" for c
  proof -
    from two that have "length (participants c) = 2" by blast
    then obtain x y where "participants c = [x, y]"
      by (auto simp: numeral_2_eq_2 length_Suc_conv)
    with two show ?thesis by auto
  qed
  with contains show "(findConversation cs a b \<noteq> None) = (\<exists>c\<in>set cs. set (participants c) = {a, b})"
    by auto
qed

theorem C4_witness:
  "findConversation [conv11, conv10] 2 4 = None
   \<and> findConversation [conv10] 2 1 = Some conv10 \<and> set (participants conv10) = {2, 1}"
  using C4_findConversation_contains [of "[conv10]" 2 1]
        C4_findConversation_contains [of "[conv11, conv10]" 2 4]
  by (simp add: findConversation_def conv10_def conv11_def)

subsection \<open>Sending a message\<close>

lemma surrogatePairs_none:
  "\<forall>u\<in>set s. \<not> is_high_surrogate u \<Longrightarrow> surrogatePairs s = 0"
  by (induction s rule: surrogatePairs.induct) simp_all

lemma isLength_count_Nil: "isLength_count [] = 0"
  by (simp add: isLength_count_def)

lemma letters_simps:
  "length (letters n) = n"
  "isLength_count (letters n) = n"
  "(letters n = []) = (n = 0)"
proof -
  show "length (letters n) = n" by (simp add: letters_def)
  have "surrogatePairs (letters n) = 0"
    by (rule surrogatePairs_none) (simp add: letters_def is_high_surrogate_def)
  moreover have "presentationSequences (letters n) = 0"
    by (simp add: presentationSequences_def letters_def)
  ultimately show "isLength_count (letters n) = n"
    by (simp add: isLength_count_def letters_def)
  show "(letters n = []) = (n = 0)" by (simp add: letters_def)
qed

lemma emojis_Suc: "emojis (Suc n) = 0xD83D # 0xDE00 # emojis n"
  by (simp add: emojis_def)

lemma emojis_simps:
  "length (emojis n) = 2 * n"
  "surrogatePairs (emojis n) = n"
  "presentationSequences (emojis n) = 0"
  "(emojis n = []) = (n = 0)"
proof -
  show "length (emojis n) = 2 * n" by (induction n) (simp add: emojis_def, simp add: emojis_Suc)
  show "surrogatePairs (emojis n) = n"
    by (induction n)
       (simp add: emojis_def, simp add: emojis_Suc is_high_surrogate_def is_low_surrogate_def)
  show "presentationSequences (emojis n) = 0"
    by (induction n) (simp add: emojis_def presentationSequences_def,
                      simp add: emojis_Suc presentationSequences_def)
  show "(emojis n = []) = (n = 0)" by (cases n) (simp_all add: emojis_def)
qed

lemma isLength_count_emojis: "isLength_count (emojis n) = n"
  by (simp add: isLength_count_def emojis_simps)


lemma unfollowed_db_eq:
  "unfollowed_db =
     example_db\<lparr>users := [alice\<lparr>followers := []\<rparr>, bob\<lparr>following := []\<rparr>, carol, dave]\<rparr>"
  by (simp add: unfollowed_db_def delete_unfollow_def example_defs findOne_username_def pull_def)

lemma checkMutualFollow_exists:
  "checkMutualFollow us a b \<Longrightarrow> \<exists>u. findById u_id us a = Some u"
  by (auto simp: checkMutualFollow_def split: option.splits)

text \<open>
  C2, as stated, fails in its last part: a participant whose partner no longer follows
  them gets 403 for a text of exactly 1000 characters, and no message is stored.  After
  bob has unfollowed alice, alice is still a participant of conversation 10.
\<close>

theorem C2_counterexample:
  "findById c_id (conversations unfollowed_db) 10 = Some conv10
   \<and> 1 \<in> set (participants conv10)
   \<and> rq_content (text_request (letters 1000)) = Some (letters 1000)
   \<and> isLength_count (letters 1000) = 1000
   \<and> post_message ''http://h'' unfollowed_db 1 (text_request (letters 1000)) 99 500 =
       (Inl (HttpError 403 ''Ya no pueden chatear. Verificar seguimiento mutuo.''), unfollowed_db)"
  by (simp add: unfollowed_db_eq text_request_def post_message_def validationResult_def truthy_def
        example_defs findById_def checkMutualFollow_def letters_simps)

text \<open>
  C2 (amended).  For every send-message request: if both the text content and the image
  are absent the request fails with 400 and the store is unchanged; if the content is
  1001 characters long, as the validator counts them, it fails with 400 and the store is
  unchanged; if the content is exactly 1000 characters long and the sender is a
  participant of the conversation, the validation passes (the answer is not a 400), and
  then: when the mutual-follow gate between the sender and the other participant does
  not hold, the request fails with 403 and the store is unchanged; when it holds and the
  content has no more than 1000 UTF-16 code units, the message is appended to the
  message store.
\<close>

theorem C2_send_validation:
  "(rq_content rq = None \<and> rq_file rq = None \<longrightarrow>
      failed_with 400 (fst (post_message base st a rq newId now)) \<and>
      snd (post_message base st a rq newId now) = st)
   \<and> (rq_content rq = Some c \<and> isLength_count c = 1001 \<longrightarrow>
      failed_with 400 (fst (post_message base st a rq newId now)) \<and>
      snd (post_message base st a rq newId now) = st)
   \<and> (rq_content rq = Some c \<and> isLength_count c = 1000 \<and>
      rq_conversationId rq = Some k \<and>
      findById c_id (conversations st) k = Some conv \<and> a \<in> set (participants conv) \<longrightarrow>
      \<not> failed_with 400 (fst (post_message base st a rq newId now)) \<and>
      (if (case find (\<lambda>p. p \<noteq> a) (participants conv) of
             None \<Rightarrow> False
           | Some p \<Rightarrow> checkMutualFollow (users st) a p)
       then length c \<le> 1000 \<longrightarrow>
            (\<exists>fm msg. fst (post_message base st a rq newId now) = Inr fm \<and>
                messages (snd (post_message base st a rq newId now)) = messages st @ [msg] \<and>
                m_id msg = newId \<and> m_conversation msg = k \<and> sender msg = a \<and>
                content msg = c \<and> \<not> isDeleted msg)
       else post_message base st a rq newId now =
              (Inl (HttpError 403 ''Ya no pueden chatear. Verificar seguimiento mutuo.''), st)))"
proof (intro conjI impI)
  assume "rq_content rq = None \<and> rq_file rq = None"
  then show "failed_with 400 (fst (post_message base st a rq newId now))"
    and "snd (post_message base st a rq newId now) = st"
    by (simp_all add: post_message_def failed_with_def truthy_def)
next
  assume "rq_content rq = Some c \<and> isLength_count c = 1001"
  then show "failed_with 400 (fst (post_message base st a rq newId now))"
    and "snd (post_message base st a rq newId now) = st"
    by (simp_all add: post_message_def validationResult_def failed_with_def)
next
  assume h: "rq_content rq = Some c \<and> isLength_count c = 1000 \<and>
      rq_conversationId rq = Some k \<and>
      findById c_id (conversations st) k = Some conv \<and> a \<in> set (participants conv)"
  let ?canChat = "(case find (\<lambda>p. p \<noteq> a) (participants conv) of
         None \<Rightarrow> False
       | Some p \<Rightarrow> checkMutualFollow (users st) a p)"
  let ?r = "post_message base st a rq newId now"
  from h have "c \<noteq> []" by (auto simp: isLength_count_Nil)
  with h have valid: "validationResult rq = []" "truthy (rq_content rq)"
    by (simp_all add: validationResult_def truthy_def)
  have cases: "?r = (Inl (HttpError 403 ''Ya no pueden chatear. Verificar seguimiento mutuo.''), st)"
    if "\<not> ?canChat"
    using that h valid by (simp add: post_message_def)
  have stored: "\<exists>fm msg. fst ?r = Inr fm \<and> messages (snd ?r) = messages st @ [msg] \<and>
                m_id msg = newId \<and> m_conversation msg = k \<and> sender msg = a \<and>
                content msg = c \<and> \<not> isDeleted msg"
    if chat: "?canChat" and units: "length c \<le> 1000"
  proof -
    from chat obtain u where "findById u_id (users st) a = Some u"
      by (auto split: option.splits dest: checkMutualFollow_exists)
    with chat units h valid \<open>c \<noteq> []\<close> show ?thesis
      by (simp add: post_message_def messageSchema_valid_def formatMessage_def Let_def)
  qed
  have rejected: "?r = (Inl server_error, st)" if chat: "?canChat" and units: "\<not> length c \<le> 1000"
    using that h valid by (simp add: post_message_def messageSchema_valid_def Let_def)
  show "\<not> failed_with 400 (fst ?r)"
  proof (cases ?canChat)
    case False
    from cases [OF this] show ?thesis by (simp add: failed_with_def)
  next
    case True
    show ?thesis
    proof (cases "length c \<le> 1000")
      case True
      from stored [OF \<open>?canChat\<close> this] show ?thesis by (auto simp: failed_with_def)
    next
      case False
      from rejected [OF \<open>?canChat\<close> this] show ?thesis
        by (simp add: failed_with_def server_error_def)
    qed
  qed
  show "if ?canChat
       then length c \<le> 1000 \<longrightarrow>
            (\<exists>fm msg. fst ?r = Inr fm \<and> messages (snd ?r) = messages st @ [msg] \<and>
                m_id msg = newId \<and> m_conversation msg = k \<and> sender msg = a \<and>
                content msg = c \<and> \<not> isDeleted msg)
       else ?r = (Inl (HttpError 403 ''Ya no pueden chatear. Verificar seguimiento mutuo.''), st)"
    using cases stored by (cases ?canChat) simp_all
qed

theorem C2_witness:
  "failed_with 400 (fst (post_message ''http://h'' example_db 1
       \<lparr>rq_conversationId = Some 10, rq_content = None, rq_file = None\<rparr> 99 500))
   \<and> failed_with 400 (fst (post_message ''http://h'' example_db 1 (text_request (letters 1001)) 99 500))
   \<and> messages (snd (post_message ''http://h'' example_db 1 (text_request (letters 1000)) 99 500)) =
       example_messages @
       [\<lparr>m_id = 99, m_conversation = 10, sender = 1, content = letters 1000, m_image = None,
         messageType = TextMessage, isDeleted = False, deletedAt = None, createdAt = 500\<rparr>]
   \<and> snd (post_message ''http://h'' unfollowed_db 1 (text_request (letters 1000)) 99 500) =
       unfollowed_db"
  using C2_send_validation [of "\<lparr>rq_conversationId = Some 10, rq_content = None, rq_file = None\<rparr>"
          "''http://h''" example_db 1 99 500 "[]" 10 conv10]
        C2_send_validation [of "text_request (letters 1001)" "''http://h''" example_db 1 99 500
          "letters 1001" 10 conv10]
        C2_send_validation [of "text_request (letters 1000)" "''http://h''" example_db 1 99 500
          "letters 1000" 10 conv10]
        C2_send_validation [of "text_request (letters 1000)" "''http://h''" unfollowed_db 1 99 500
          "letters 1000" 10 conv10]
  by (simp add: unfollowed_db_eq text_request_def truthy_def post_message_def validationResult_def
        example_defs findById_def checkMutualFollow_def messageSchema_valid_def formatMessage_def
        failed_with_def letters_simps)

text \<open>
  The two counts differ on text outside the Basic Multilingual Plane.  501 emoji are 501
  characters for the validator and 1002 code units for the schema: the chain accepts
  the request, \<open>save()\<close> throws, the answer is 500 and nothing is stored.  600 accented
  letters are 600 characters and 600 code units: the message is stored.
\<close>

lemma save_rejects_surrogate_pairs:
  "isLength_count (emojis 501) = 501 \<and> length (emojis 501) = 1002
   \<and> post_message ''http://h'' example_db 1 (text_request (emojis 501)) 99 500 =
       (Inl server_error, example_db)"
  by (simp add: text_request_def truthy_def post_message_def validationResult_def
        example_defs findById_def checkMutualFollow_def messageSchema_valid_def
        isLength_count_emojis emojis_simps)

lemma accented_letters_stored:
  "isLength_count (replicate 600 0xF3) = 600
   \<and> messages (snd (post_message ''http://h'' example_db 1 (text_request (replicate 600 0xF3)) 99 500)) =
       example_messages @
       [\<lparr>m_id = 99, m_conversation = 10, sender = 1, content = replicate 600 0xF3, m_image = None,
         messageType = TextMessage, isDeleted = False, deletedAt = None, createdAt = 500\<rparr>]"
proof -
  have "surrogatePairs (replicate 600 0xF3) = 0"
    by (rule surrogatePairs_none) (simp add: is_high_surrogate_def)
  then have n: "isLength_count (replicate 600 0xF3) = 600"
    by (simp add: isLength_count_def presentationSequences_def)
  then show ?thesis
    by (simp add: text_request_def truthy_def post_message_def validationResult_def
        example_defs findById_def checkMutualFollow_def messageSchema_valid_def formatMessage_def)
qed

subsection \<open>Likes\<close>

text \<open>
  C6. When user U already appears in the likes list of post P, a like request by U
  answers 400 with the message "Ya has dado like a este post" and returns the store as
  it was, so the likes list and \<open>likesCount\<close> of P are unchanged.
\<close>

theorem C6_already_liked:
  assumes "findById p_id (posts st) postId = Some p"
      and "hasUserLiked p (Some (u_id reqUser))"
  shows "post_like st reqUser postId now =
           (Inl (HttpError 400 ''Ya has dado like a este post''), st)"
  using assms by (simp add: post_like_def)

theorem C6_witness:
  "findById p_id (posts example_db) 30 = Some post30
   \<and> hasUserLiked post30 (Some (u_id alice))
   \<and> post_like example_db alice 30 60 =
        (Inl (HttpError 400 ''Ya has dado like a este post''), example_db)"
  using C6_already_liked [of example_db 30 post30 alice 60]
  by (simp add: example_defs findById_def hasUserLiked_def)

text \<open>
  The denormalised counter through publish, like and unlike: each of them leaves the
  stored post with \<open>likesCount\<close> equal to the length of its likes list.
\<close>

lemma findById_ident: "findById ident xs i = Some d \<Longrightarrow> ident d = i"
  by (auto simp: findById_def dest: find_mem)

lemma hasUserLiked_find:
  "hasUserLiked p (Some u) = (find (\<lambda>l. like_user l = u) (likes p) \<noteq> None)"
  unfolding hasUserLiked_def find_not_None_iff by (simp add: list_ex_iff)

lemma like_keeps_likesCount:
  assumes "findById p_id (posts st) postId = Some p"
      and "\<not> hasUserLiked p (Some (u_id reqUser))"
  shows "\<exists>p'. findById p_id (posts (snd (post_like st reqUser postId now))) postId = Some p' \<and>
              likes p' = likes p @ [\<lparr>like_user = u_id reqUser, like_createdAt = now\<rparr>] \<and>
              likesCount p' = int (length (likes p'))"
proof -
  let ?p1 = "p\<lparr>likes := likes p @ [\<lparr>like_user = u_id reqUser, like_createdAt = now\<rparr>]\<rparr>"
  from assms(2) have add: "addLike p (Some (u_id reqUser)) now = (True, ?p1)"
    by (simp add: addLike_def hasUserLiked_find)
  from assms(1) have id: "p_id p = postId" by (rule findById_ident)
  have "posts (snd (post_like st reqUser postId now)) = save_post True ?p1 (posts st)"
    using assms add by (simp add: post_like_def Let_def split: option.splits)
  moreover have "findById p_id (save_post True ?p1 (posts st)) postId = Some (pre_save True ?p1)"
    unfolding save_post_def using assms(1) id
    by (simp add: findById_update_same pre_save_def)
  ultimately show ?thesis by (simp add: pre_save_def)
qed

lemma unlike_keeps_likesCount:
  assumes "findById p_id (posts st) postId = Some p"
      and "hasUserLiked p (Some (u_id reqUser))"
  shows "\<exists>p'. findById p_id (posts (snd (delete_like st reqUser postId))) postId = Some p' \<and>
              likes p' = filter (\<lambda>l. like_user l \<noteq> u_id reqUser) (likes p) \<and>
              likesCount p' = int (length (likes p'))"
proof -
  let ?p1 = "p\<lparr>likes := filter (\<lambda>l. like_user l \<noteq> u_id reqUser) (likes p)\<rparr>"
  from assms(2) obtain l where "l \<in> set (likes p)" "\<not> like_user l \<noteq> u_id reqUser"
    by (auto simp: hasUserLiked_def list_ex_iff)
  then have "length (filter (\<lambda>l. like_user l \<noteq> u_id reqUser) (likes p)) < length (likes p)"
    by (rule length_filter_less)
  then have rem: "removeLike p (Some (u_id reqUser)) = (True, ?p1)"
    by (simp add: removeLike_def Let_def)
  from assms(1) have id: "p_id p = postId" by (rule findById_ident)
  have "posts (snd (delete_like st reqUser postId)) = save_post True ?p1 (posts st)"
    using assms rem by (simp add: delete_like_def Let_def split: option.splits)
  moreover have "findById p_id (save_post True ?p1 (posts st)) postId = Some (pre_save True ?p1)"
    unfolding save_post_def using assms(1) id
    by (simp add: findById_update_same pre_save_def)
  ultimately show ?thesis by (simp add: pre_save_def)
qed

lemma publish_likesCount:
  assumes "publish st reqUser textField richField file newId now = (Inr p, st')"
  shows "posts st' = posts st @ [p] \<and> likes p = [] \<and> likesCount p = int (length (likes p))"
  using assms
  by (auto simp: publish_def pre_save_def Let_def split: option.splits if_splits)

text \<open>
  C5.  After every mutation of a post (publish, like, unlike, the like removal of account
  deletion) \<open>likesCount\<close> should equal the length of the likes list.  Publish, like and
  unlike keep it (above); account deletion does not.  Its step 2 pulls the deleted
  user's likes with \<open>updateMany\<close>, which runs no save hook, and its step 3 ("Actualizar
  likesCount en todos los posts afectados") recomputes \<open>likesCount\<close> only for the posts
  that still have a like.  A post whose only like came from the deleted user is left
  with an empty likes list and \<open>likesCount = 1\<close>: here post 30 of bob, liked by alice
  alone, after alice deletes her account.
\<close>

theorem C5_stale_likesCount_after_account_deletion:
  "findById p_id (posts example_db) 30 = Some post30
   \<and> likesCount post30 = int (length (likes post30))
   \<and> posts (snd (delete_account example_db 1 500)) = [post30\<lparr>likes := []\<rparr>]
   \<and> likesCount (post30\<lparr>likes := []\<rparr>) = 1
   \<and> int (length (likes (post30\<lparr>likes := []\<rparr>))) = 0"
  by (simp add: delete_account_def pull_likes_def update_likesCounts_def example_defs findById_def
        Let_def)

subsection \<open>Message history\<close>

lemma those_map_Some:
  "(\<forall>x\<in>set xs. f x \<noteq> None) \<Longrightarrow> \<exists>ys. those (map f xs) = Some ys \<and> map f xs = map Some ys"
proof (induction xs)
  case Nil
  then show ?case by simp
next
  case (Cons x xs)
  then obtain ys where "those (map f xs) = Some ys" "map f xs = map Some ys" by auto
  moreover from Cons.prems obtain y where "f x = Some y" by auto
  ultimately have "those (map f (x # xs)) = Some (y # ys) \<and> map f (x # xs) = map Some (y # ys)"
    by simp
  then show ?case by blast
qed

lemma sorted_desc_rev:
  fixes f :: "'a \<Rightarrow> int"
  shows "sorted (map (\<lambda>x. - f x) xs) \<Longrightarrow> sorted (map f (rev xs))"
  by (induction xs) (auto simp: sorted_append)

lemma sorted_desc_take_drop:
  fixes f :: "'a \<Rightarrow> int"
  assumes "sorted (map (\<lambda>x. - f x) xs)"
  shows "sorted (map (\<lambda>x. - f x) (take n xs))"
    and "\<forall>r\<in>set (drop n xs). \<forall>s\<in>set (take n xs). f r \<le> f s"
proof -
  from assms have "sorted (map (\<lambda>x. - f x) (take n xs) @ map (\<lambda>x. - f x) (drop n xs))"
    by (simp flip: map_append)
  then show "sorted (map (\<lambda>x. - f x) (take n xs))"
    and "\<forall>r\<in>set (drop n xs). \<forall>s\<in>set (take n xs). f r \<le> f s"
    by (auto simp: sorted_append)
qed

lemma find_messages_page1:
  fixes ms k
  defines "visible \<equiv> filter (\<lambda>m. m_conversation m = k \<and> \<not> isDeleted m) ms"
  assumes "0 < lim"
  shows "\<exists>rest. mset (rev (find_messages ms k lim 0) @ rest) = mset visible \<and>
           length (find_messages ms k lim 0) = min lim (length visible) \<and>
           sorted (map createdAt (rev (find_messages ms k lim 0))) \<and>
           (\<forall>r\<in>set rest. \<forall>s\<in>set (rev (find_messages ms k lim 0)). createdAt r \<le> createdAt s)"
proof -
  let ?l = "sort_key (\<lambda>m. - createdAt m) visible"
  have fm: "find_messages ms k lim 0 = take lim ?l"
    using assms by (simp add: find_messages_def)
  have srt: "sorted (map (\<lambda>m. - createdAt m) ?l)" by simp
  have "mset (take lim ?l) + mset (drop lim ?l) = mset ?l"
    by (metis append_take_drop_id mset_append)
  then have 1: "mset (rev (take lim ?l) @ drop lim ?l) = mset visible" by simp
  have 2: "length (take lim ?l) = min lim (length visible)" by simp
  have 3: "sorted (map createdAt (rev (take lim ?l)))"
    using sorted_desc_take_drop(1) [OF srt] by (rule sorted_desc_rev)
  have 4: "\<forall>r\<in>set (drop lim ?l). \<forall>s\<in>set (rev (take lim ?l)). createdAt r \<le> createdAt s"
    using sorted_desc_take_drop(2) [OF srt, of lim] by simp
  from 1 2 3 4 show ?thesis unfolding fm by blast
qed

text \<open>
  C7. For a conversation and a participant asking for page 1 with page size 50 (given or
  by default), in a store where the sender of every non-deleted message of the
  conversation exists: the request succeeds, and
  the answer formats, one for one and in this order, a list \<open>sel\<close> of messages such that
  \<open>sel\<close> together with some remainder is exactly the non-deleted messages of the
  conversation, \<open>sel\<close> has 50 of them (all when there are fewer), \<open>sel\<close> is in ascending
  order of creation time, and no message of the remainder is more recent than one of
  \<open>sel\<close>.  No soft-deleted message is in \<open>sel\<close>.
\<close>

theorem C7_recent_messages:
  assumes conv: "findById c_id (conversations st) k = Some conv"
      and part: "u \<in> set (participants conv)"
      and page: "pageQ = None \<or> pageQ = Some 1"
      and limit: "limitQ = None \<or> limitQ = Some 50"
      and senders: "\<forall>m\<in>set (messages st). m_conversation m = k \<and> \<not> isDeleted m \<longrightarrow>
                      findById u_id (users st) (sender m) \<noteq> None"
  shows "\<exists>out sel rest.
           get_messages base st u k pageQ limitQ = Inr out \<and>
           map (formatMessage base (users st) u) sel = map Some out \<and>
           mset (sel @ rest) =
             mset (filter (\<lambda>m. m_conversation m = k \<and> \<not> isDeleted m) (messages st)) \<and>
           length sel =
             min 50 (length (filter (\<lambda>m. m_conversation m = k \<and> \<not> isDeleted m) (messages st))) \<and>
           sorted (map createdAt sel) \<and>
           (\<forall>r\<in>set rest. \<forall>s\<in>set sel. createdAt r \<le> createdAt s) \<and>
           (\<forall>s\<in>set sel. \<not> isDeleted s \<and> m_conversation s = k)"
proof -
  let ?visible = "filter (\<lambda>m. m_conversation m = k \<and> \<not> isDeleted m) (messages st)"
  let ?sel = "rev (find_messages (messages st) k 50 0)"
  from find_messages_page1 [of 50 "messages st" k] obtain rest where
    perm: "mset (?sel @ rest) = mset ?visible" and
    len: "length (find_messages (messages st) k 50 0) = min 50 (length ?visible)" and
    srt: "sorted (map createdAt ?sel)" and
    recent: "\<forall>r\<in>set rest. \<forall>s\<in>set ?sel. createdAt r \<le> createdAt s"
    by auto
  from perm have "set ?sel \<subseteq> set ?visible"
    by (metis mset_subset_eqD mset_subset_eq_add_left mset_append set_mset_mset subsetI)
  then have vis: "\<forall>s\<in>set ?sel. \<not> isDeleted s \<and> m_conversation s = k" by auto
  from \<open>set ?sel \<subseteq> set ?visible\<close> senders
  have "\<forall>m\<in>set ?sel. formatMessage base (users st) u m \<noteq> None"
    by (auto simp: formatMessage_def split: option.splits)
  from those_map_Some [OF this] obtain out where
    out: "those (map (formatMessage base (users st) u) ?sel) = Some out"
         "map (formatMessage base (users st) u) ?sel = map Some out"
    by blast
  from conv part page limit out(1) have "get_messages base st u k pageQ limitQ = Inr out"
    by (auto simp: get_messages_def)
  with out(2) perm len srt recent vis show ?thesis
    by (intro exI [of _ out] exI [of _ ?sel] exI [of _ rest]) simp
qed

theorem C7_witness:
  "get_messages ''http://h'' example_db 1 10 None (Some 50) =
     Inr [\<lparr>f_id = 20, f_content = ascii ''hi'', f_image = None, f_messageType = TextMessage,
            f_sender = \<lparr>pi_id = 1, pi_username = ''alice'', pi_profilePicture = None\<rparr>,
            f_createdAt = 100, isOwn = True\<rparr>,
          \<lparr>f_id = 21, f_content = ascii ''hello'', f_image = None, f_messageType = TextMessage,
            f_sender = \<lparr>pi_id = 2, pi_username = ''bob'',
                        pi_profilePicture = Some ''http://h/uploads/profiles/bob.png''\<rparr>,
            f_createdAt = 200, isOwn = False\<rparr>]"
  using C7_recent_messages [of example_db 10 conv10 1 None "Some 50" "''http://h''"]
  by (simp add: example_defs findById_def get_messages_def find_messages_def formatMessage_def
        format_user_def upload_url_def)

subsection \<open>Deleting a message\<close>

text \<open>
  C8. For a stored message M and a requester R: when R is not the sender of M the delete
  request answers 403 and the store is unchanged; when R is the sender, the request
  succeeds and the store differs only in the record of M, which stays in its place with
  \<open>isDeleted\<close> set and \<open>deletedAt\<close> set to the current time, every other field (the
  content among them) as before.
\<close>

theorem C8_delete_message:
  assumes "findById m_id (messages st) messageId = Some m"
  shows "(sender m \<noteq> r \<longrightarrow>
            delete_message st r messageId now =
              (Inl (HttpError 403 ''Solo puedes eliminar tus propios mensajes''), st))
       \<and> (sender m = r \<longrightarrow>
            (\<exists>pre post.
               messages st = pre @ m # post \<and>
               delete_message st r messageId now =
                 (Inr ''Mensaje eliminado exitosamente'',
                  st\<lparr>messages := pre @ m\<lparr>isDeleted := True, deletedAt := Some now\<rparr> # post\<rparr>) \<and>
               content (m\<lparr>isDeleted := True, deletedAt := Some now\<rparr>) = content m))"
proof (intro conjI impI)
  assume "sender m \<noteq> r"
  with assms show "delete_message st r messageId now =
      (Inl (HttpError 403 ''Solo puedes eliminar tus propios mensajes''), st)"
    by (simp add: delete_message_def)
next
  assume own: "sender m = r"
  from findById_split [OF assms, of "\<lambda>m. m\<lparr>isDeleted := True, deletedAt := Some now\<rparr>"]
  obtain pre post where split: "messages st = pre @ m # post"
    and upd: "findByIdAndUpdate m_id (messages st) messageId
                (\<lambda>m. m\<lparr>isDeleted := True, deletedAt := Some now\<rparr>) =
              pre @ m\<lparr>isDeleted := True, deletedAt := Some now\<rparr> # post"
    by blast
  from assms own upd have "delete_message st r messageId now =
      (Inr ''Mensaje eliminado exitosamente'',
       st\<lparr>messages := pre @ m\<lparr>isDeleted := True, deletedAt := Some now\<rparr> # post\<rparr>)"
    by (simp add: delete_message_def)
  with split show "\<exists>pre post.
       messages st = pre @ m # post \<and>
       delete_message st r messageId now =
         (Inr ''Mensaje eliminado exitosamente'',
          st\<lparr>messages := pre @ m\<lparr>isDeleted := True, deletedAt := Some now\<rparr> # post\<rparr>) \<and>
       content (m\<lparr>isDeleted := True, deletedAt := Some now\<rparr>) = content m"
    by auto
qed

theorem C8_witness:
  "delete_message example_db 1 21 500 =
     (Inl (HttpError 403 ''Solo puedes eliminar tus propios mensajes''), example_db)
   \<and> delete_message example_db 2 21 500 =
       (Inr ''Mensaje eliminado exitosamente'',
        example_db\<lparr>messages :=
          [text_message 20 10 1 ''hi'' 100,
           (text_message 21 10 2 ''hello'' 200)\<lparr>isDeleted := True, deletedAt := Some 500\<rparr>,
           (text_message 24 10 1 ''typo'' 150)\<lparr>isDeleted := True, deletedAt := Some 160\<rparr>,
           text_message 22 11 3 ''all'' 300,
           text_message 23 11 1 ''yes'' 400]\<rparr>)"
  using C8_delete_message [of example_db 21 "text_message 21 10 2 ''hello'' 200" 1 500]
        C8_delete_message [of example_db 21 "text_message 21 10 2 ''hello'' 200" 2 500]
  by (simp add: example_defs findById_def delete_message_def)


subsection \<open>Account deletion: conversations and messages\<close>

text \<open>The conversation collection through the loop.\<close>

lemma fst_remove_from_conversation:
  "fst (remove_from_conversation u now c (cs, ms)) =
     (if length (participants c) = 2 then findByIdAndDelete c_id cs (c_id c)
      else findByIdAndUpdate c_id cs (c_id c) (\<lambda>d. d\<lparr>participants := pull u (participants d)\<rparr>))"
  by (simp add: remove_from_conversation_def Let_def)

lemma snd_remove_from_conversation:
  "snd (remove_from_conversation u now c (cs, ms)) =
     (let ms1 = map (\<lambda>m. if m_conversation m = c_id c \<and> sender m = u then redact now m else m) ms
      in if length (participants c) = 2 then filter (\<lambda>m. m_conversation m \<noteq> c_id c) ms1 else ms1)"
  by (simp add: remove_from_conversation_def Let_def)

lemma loop_untouched:
  "k \<notin> c_id ` set xs \<Longrightarrow>
     findById c_id (fst (fold (remove_from_conversation u now) xs (cs, ms))) k = findById c_id cs k"
proof (induction xs arbitrary: cs ms)
  case Nil
  then show ?case by simp
next
  case (Cons x xs)
  obtain cs1 ms1 where step: "remove_from_conversation u now x (cs, ms) = (cs1, ms1)"
    by (cases "remove_from_conversation u now x (cs, ms)")
  from Cons.prems have "k \<noteq> c_id x" "k \<notin> c_id ` set xs" by auto
  from fst_remove_from_conversation [of u now x cs ms] step \<open>k \<noteq> c_id x\<close>
  have "findById c_id cs1 k = findById c_id cs k"
    by (simp add: findById_update_other findById_delete_other split: if_splits)
  with Cons.IH [OF \<open>k \<notin> c_id ` set xs\<close>, of cs1 ms1] step show ?case by simp
qed

lemma loop_conversation:
  assumes "distinct (map c_id cs)" and "distinct (map c_id xs)" and "c \<in> set xs"
      and "findById c_id cs (c_id c) = Some c"
  shows "findById c_id (fst (fold (remove_from_conversation u now) xs (cs, ms))) (c_id c) =
           (if length (participants c) = 2 then None
            else Some (c\<lparr>participants := pull u (participants c)\<rparr>))"
  using assms
proof (induction xs arbitrary: cs ms)
  case Nil
  then show ?case by simp
next
  case (Cons x xs)
  obtain cs1 ms1 where step: "remove_from_conversation u now x (cs, ms) = (cs1, ms1)"
    by (cases "remove_from_conversation u now x (cs, ms)")
  have cs1: "cs1 = (if length (participants x) = 2 then findByIdAndDelete c_id cs (c_id x)
      else findByIdAndUpdate c_id cs (c_id x) (\<lambda>d. d\<lparr>participants := pull u (participants d)\<rparr>))"
    using fst_remove_from_conversation [of u now x cs ms] step by simp
  show ?case
  proof (cases "x = c")
    case True
    from Cons.prems(2) True have "c_id c \<notin> c_id ` set xs" by simp
    then have "findById c_id (fst (fold (remove_from_conversation u now) xs (cs1, ms1))) (c_id c) =
        findById c_id cs1 (c_id c)" by (rule loop_untouched)
    moreover have "findById c_id cs1 (c_id c) =
        (if length (participants c) = 2 then None
         else Some (c\<lparr>participants := pull u (participants c)\<rparr>))"
      using cs1 True Cons.prems(1,4)
      by (simp add: findById_delete_same findById_update_same)
    ultimately show ?thesis using step by simp
  next
    case False
    with Cons.prems(3) have "c \<in> set xs" by simp
    from Cons.prems(2) have "c_id x \<notin> c_id ` set xs" by simp
    with \<open>c \<in> set xs\<close> have ne: "c_id c \<noteq> c_id x" by (metis imageI)
    from cs1 Cons.prems(1) have d1: "distinct (map c_id cs1)"
      by (simp add: distinct_delete map_ident_update)
    from cs1 ne Cons.prems(4) have f1: "findById c_id cs1 (c_id c) = Some c"
      by (simp add: findById_update_other findById_delete_other)
    from Cons.prems(2) have "distinct (map c_id xs)" by simp
    from Cons.IH [OF d1 this \<open>c \<in> set xs\<close> f1, of ms1] step show ?thesis by simp
  qed
qed

text \<open>The message collection through the loop, in closed form.\<close>

lemma redact_simps:
  "m_conversation (redact now m) = m_conversation m"
  "sender (redact now m) = sender m"
  "m_id (redact now m) = m_id m"
  "redact now (redact now m) = redact now m"
  by (simp_all add: redact_def)

lemma redact_step:
  "filter (\<lambda>m. m_conversation m \<notin> D)
     (map (\<lambda>m. if m_conversation m \<in> A \<and> sender m = u then redact now m else m)
        (if two
         then filter (\<lambda>m. m_conversation m \<noteq> i)
                (map (\<lambda>m. if m_conversation m = i \<and> sender m = u then redact now m else m) ms)
         else map (\<lambda>m. if m_conversation m = i \<and> sender m = u then redact now m else m) ms)) =
   filter (\<lambda>m. m_conversation m \<notin> (if two then insert i D else D))
     (map (\<lambda>m. if m_conversation m \<in> insert i A \<and> sender m = u then redact now m else m) ms)"
proof (cases two)
  case True
  then show ?thesis by (induction ms) (simp_all add: redact_simps)
next
  case False
  then show ?thesis by (induction ms) (auto simp: redact_simps)
qed

lemma loop_messages:
  "snd (fold (remove_from_conversation u now) xs (cs, ms)) =
     filter (\<lambda>m. m_conversation m \<notin> c_id ` {c \<in> set xs. length (participants c) = 2})
       (map (\<lambda>m. if m_conversation m \<in> c_id ` set xs \<and> sender m = u then redact now m else m) ms)"
proof (induction xs arbitrary: cs ms)
  case Nil
  then show ?case by simp
next
  case (Cons x xs)
  let ?D = "c_id ` {c \<in> set xs. length (participants c) = 2}"
  let ?A = "c_id ` set xs"
  obtain cs1 ms1 where step: "remove_from_conversation u now x (cs, ms) = (cs1, ms1)"
    by (cases "remove_from_conversation u now x (cs, ms)")
  have ms1: "ms1 =
     (if length (participants x) = 2
      then filter (\<lambda>m. m_conversation m \<noteq> c_id x)
             (map (\<lambda>m. if m_conversation m = c_id x \<and> sender m = u then redact now m else m) ms)
      else map (\<lambda>m. if m_conversation m = c_id x \<and> sender m = u then redact now m else m) ms)"
    using snd_remove_from_conversation [of u now x cs ms] step by (simp add: Let_def)
  have D: "c_id ` {c \<in> set (x # xs). length (participants c) = 2} =
             (if length (participants x) = 2 then insert (c_id x) ?D else ?D)"
    by auto
  have A: "c_id ` set (x # xs) = insert (c_id x) ?A" by simp
  have "snd (fold (remove_from_conversation u now) (x # xs) (cs, ms)) =
          snd (fold (remove_from_conversation u now) xs (cs1, ms1))"
    using step by simp
  also have "\<dots> = filter (\<lambda>m. m_conversation m \<notin> ?D)
       (map (\<lambda>m. if m_conversation m \<in> ?A \<and> sender m = u then redact now m else m) ms1)"
    by (rule Cons.IH)
  also have "\<dots> = filter (\<lambda>m. m_conversation m \<notin>
                         (if length (participants x) = 2 then insert (c_id x) ?D else ?D))
       (map (\<lambda>m. if m_conversation m \<in> insert (c_id x) ?A \<and> sender m = u
                  then redact now m else m) ms)"
    unfolding ms1 by (rule redact_step)
  finally show ?case unfolding D A .
qed


lemma others_kept:
  "k \<notin> D \<Longrightarrow>
     filter (\<lambda>m. m_conversation m = k \<and> sender m \<noteq> u)
       (filter (\<lambda>m. m_conversation m \<notin> D)
          (map (\<lambda>m. if m_conversation m \<in> A \<and> sender m = u then redact now m else m) ms)) =
     filter (\<lambda>m. m_conversation m = k \<and> sender m \<noteq> u) ms"
  by (induction ms) (auto simp: redact_simps)

lemma ids_kept:
  "k \<notin> D \<Longrightarrow>
     map m_id (filter (\<lambda>m. m_conversation m = k)
       (filter (\<lambda>m. m_conversation m \<notin> D)
          (map (\<lambda>m. if m_conversation m \<in> A \<and> sender m = u then redact now m else m) ms))) =
     map m_id (filter (\<lambda>m. m_conversation m = k) ms)"
  by (induction ms) (auto simp: redact_simps)

lemma delete_account_conversations:
  "conversations (snd (delete_account st u now)) =
     fst (fold (remove_from_conversation u now)
            (filter (\<lambda>c. u \<in> set (participants c)) (conversations st))
            (conversations st, messages st))"
  by (simp add: delete_account_def Let_def)

lemma delete_account_messages:
  "messages (snd (delete_account st u now)) =
     snd (fold (remove_from_conversation u now)
            (filter (\<lambda>c. u \<in> set (participants c)) (conversations st))
            (conversations st, messages st))"
  by (simp add: delete_account_def Let_def)

text \<open>
  C9. When user U is deleted, for every stored conversation C in which U participates
  (conversation identifiers being unique): if C has exactly two participants, no
  conversation with C's identifier and no message of C remain in the store; if C has
  any other number of participants, C remains with U removed from its participant list
  and otherwise as before, the messages of C sent by the others are unchanged, and every
  message record of C remains.
\<close>

theorem C9_account_deletion_conversations:
  assumes ids: "distinct (map c_id (conversations st))"
      and c: "c \<in> set (conversations st)"
      and part: "u \<in> set (participants c)"
  shows "(length (participants c) = 2 \<longrightarrow>
            findById c_id (conversations (snd (delete_account st u now))) (c_id c) = None \<and>
            (\<forall>m\<in>set (messages (snd (delete_account st u now))). m_conversation m \<noteq> c_id c))
       \<and> (length (participants c) \<noteq> 2 \<longrightarrow>
            findById c_id (conversations (snd (delete_account st u now))) (c_id c) =
              Some (c\<lparr>participants := removeAll u (participants c)\<rparr>) \<and>
            filter (\<lambda>m. m_conversation m = c_id c \<and> sender m \<noteq> u)
                   (messages (snd (delete_account st u now))) =
              filter (\<lambda>m. m_conversation m = c_id c \<and> sender m \<noteq> u) (messages st) \<and>
            map m_id (filter (\<lambda>m. m_conversation m = c_id c)
                   (messages (snd (delete_account st u now)))) =
              map m_id (filter (\<lambda>m. m_conversation m = c_id c) (messages st)))"
proof -
  let ?ucs = "filter (\<lambda>c. u \<in> set (participants c)) (conversations st)"
  let ?D = "c_id ` {d \<in> set ?ucs. length (participants d) = 2}"
  from ids have d_ucs: "distinct (map c_id ?ucs)" by (rule distinct_map_filter)
  from c part have c_ucs: "c \<in> set ?ucs" by simp
  from ids c have stored: "findById c_id (conversations st) (c_id c) = Some c"
    by (rule findById_distinct)
  have conv: "findById c_id (conversations (snd (delete_account st u now))) (c_id c) =
      (if length (participants c) = 2 then None
       else Some (c\<lparr>participants := removeAll u (participants c)\<rparr>))"
    unfolding delete_account_conversations
    using loop_conversation [OF ids d_ucs c_ucs stored, of u now "messages st"]
    by (simp add: pull_def)
  have msgs: "messages (snd (delete_account st u now)) =
      filter (\<lambda>m. m_conversation m \<notin> ?D)
        (map (\<lambda>m. if m_conversation m \<in> c_id ` set ?ucs \<and> sender m = u
                   then redact now m else m) (messages st))"
    unfolding delete_account_messages by (rule loop_messages)
  show ?thesis
  proof (intro conjI impI)
    assume two: "length (participants c) = 2"
    with conv show "findById c_id (conversations (snd (delete_account st u now))) (c_id c) = None"
      by simp
    from two c_ucs have "c_id c \<in> ?D" by blast
    then show "\<forall>m\<in>set (messages (snd (delete_account st u now))). m_conversation m \<noteq> c_id c"
      unfolding msgs by auto
  next
    assume other: "length (participants c) \<noteq> 2"
    with conv show "findById c_id (conversations (snd (delete_account st u now))) (c_id c) =
        Some (c\<lparr>participants := removeAll u (participants c)\<rparr>)"
      by simp
    have notD: "c_id c \<notin> ?D"
    proof
      assume "c_id c \<in> ?D"
      then obtain d where d: "d \<in> set (conversations st)" "length (participants d) = 2"
        "c_id d = c_id c" by auto
      from ids have "inj_on c_id (set (conversations st))" by (simp add: distinct_map)
      with d c have "d = c" by (auto dest: inj_onD)
      with d other show False by simp
    qed
    show "filter (\<lambda>m. m_conversation m = c_id c \<and> sender m \<noteq> u)
                   (messages (snd (delete_account st u now))) =
              filter (\<lambda>m. m_conversation m = c_id c \<and> sender m \<noteq> u) (messages st)"
      unfolding msgs using notD by (rule others_kept)
    show "map m_id (filter (\<lambda>m. m_conversation m = c_id c)
                   (messages (snd (delete_account st u now)))) =
              map m_id (filter (\<lambda>m. m_conversation m = c_id c) (messages st))"
      unfolding msgs using notD by (rule ids_kept)
  qed
qed

theorem C9_witness:
  "conversations (snd (delete_account example_db 1 500)) = [conv11\<lparr>participants := [2, 3]\<rparr>]
   \<and> messages (snd (delete_account example_db 1 500)) =
       [text_message 22 11 3 ''all'' 300, redact 500 (text_message 23 11 1 ''yes'' 400)]"
  using C9_account_deletion_conversations [of example_db conv10 1 500]
        C9_account_deletion_conversations [of example_db conv11 1 500]
  by (simp add: delete_account_conversations delete_account_messages
        remove_from_conversation_def pull_def redact_def example_defs Let_def)

subsection \<open>Follow and unfollow\<close>

text \<open>
  C10, as stated, fails in its unfollow part: the code takes "R follows T" from R's
  following list, and an unfollow by an R that does not follow T still pulls R from T's
  followers list.  Where the two lists disagree the request succeeds and changes the
  store: alice does not follow dave, dave's followers list names alice, and after
  alice's unfollow it is empty.
\<close>

theorem C10_counterexample:
  "findOne_username (users half_unfollowed_db) ''dave'' = Some (dave\<lparr>followers := [1]\<rparr>)
   \<and> findById u_id (users half_unfollowed_db) 1 = Some alice
   \<and> u_id dave \<notin> set (following alice)
   \<and> delete_unfollow half_unfollowed_db 1 ''dave'' =
       (Inr \<lparr>fr_message = ''Dejaste de seguir al usuario'', isFollowing = False\<rparr>, example_db)
   \<and> followers (dave\<lparr>followers := [1]\<rparr>) = [1] \<and> followers dave = []
   \<and> users example_db \<noteq> users half_unfollowed_db"
  by (simp add: half_unfollowed_db_def example_defs findOne_username_def findById_def
        delete_unfollow_def pull_def)

text \<open>
  C10 (amended).  Follow and unfollow differ in their error behaviour.  For an existing
  requester R and an existing target T (document identifiers being unique): if R already
  follows T, a follow request answers 400 and changes nothing; if R does not follow T (T
  is not in R's following list), an unfollow request answers with the success response,
  with no error, and the store differs at most in T's record, whose followers list has R
  removed; it changes nothing when R is not in T's followers list, that is when the two
  mirrored lists agree.
\<close>

theorem C10_follow_unfollow_asymmetry:
  assumes target: "findOne_username (users st) uname = Some t"
      and requester: "findById u_id (users st) r = Some ru"
      and ids: "distinct (map u_id (users st))"
  shows "(u_id t \<in> set (following ru) \<longrightarrow>
            (\<exists>msg. post_follow st r uname = (Inl (HttpError 400 msg), st)))
       \<and> (u_id t \<notin> set (following ru) \<longrightarrow>
            (\<exists>pre post.
               users st = pre @ t # post \<and>
               delete_unfollow st r uname =
                 (Inr \<lparr>fr_message = ''Dejaste de seguir al usuario'', isFollowing = False\<rparr>,
                  st\<lparr>users := pre @ t\<lparr>followers := removeAll r (followers t)\<rparr> # post\<rparr>)))
       \<and> (u_id t \<notin> set (following ru) \<and> r \<notin> set (followers t) \<longrightarrow>
            delete_unfollow st r uname =
              (Inr \<lparr>fr_message = ''Dejaste de seguir al usuario'', isFollowing = False\<rparr>, st))"
proof -
  let ?f1 = "\<lambda>u. u\<lparr>following := pull (u_id t) (following u)\<rparr>"
  let ?f2 = "\<lambda>u. u\<lparr>followers := pull r (followers u)\<rparr>"
  let ?ok = "Inr \<lparr>fr_message = ''Dejaste de seguir al usuario'', isFollowing = False\<rparr>
               :: http_error + follow_response"
  from target have "t \<in> set (users st)"
    by (auto simp: findOne_username_def dest: find_mem)
  with ids have stored: "findById u_id (users st) (u_id t) = Some t" by (rule findById_distinct)
  have first: "findByIdAndUpdate u_id (users st) r ?f1 = users st"
    if "u_id t \<notin> set (following ru)"
  proof -
    from that have "?f1 ru = ru" by (simp add: pull_def)
    with requester show ?thesis by (rule findByIdAndUpdate_noop)
  qed
  have result: "delete_unfollow st r uname =
      (?ok, st\<lparr>users := findByIdAndUpdate u_id (users st) (u_id t) ?f2\<rparr>)"
    if "u_id t \<notin> set (following ru)"
    using target first [OF that] by (simp add: delete_unfollow_def Let_def)
  show ?thesis
  proof (intro conjI impI)
    assume "u_id t \<in> set (following ru)"
    with target requester show "\<exists>msg. post_follow st r uname = (Inl (HttpError 400 msg), st)"
      by (simp add: post_follow_def)
  next
    assume no: "u_id t \<notin> set (following ru)"
    from findById_split [OF stored, of ?f2] obtain pre post where
      split: "users st = pre @ t # post" and
      upd: "findByIdAndUpdate u_id (users st) (u_id t) ?f2 = pre @ ?f2 t # post"
      by blast
    from result [OF no] upd
    have "delete_unfollow st r uname =
        (?ok, st\<lparr>users := pre @ t\<lparr>followers := removeAll r (followers t)\<rparr> # post\<rparr>)"
      by (simp add: pull_def)
    with split show "\<exists>pre post.
         users st = pre @ t # post \<and>
         delete_unfollow st r uname =
           (?ok, st\<lparr>users := pre @ t\<lparr>followers := removeAll r (followers t)\<rparr> # post\<rparr>)"
      by blast
  next
    assume no: "u_id t \<notin> set (following ru) \<and> r \<notin> set (followers t)"
    then have "?f2 t = t" by (simp add: pull_def)
    with stored have "findByIdAndUpdate u_id (users st) (u_id t) ?f2 = users st"
      by (rule findByIdAndUpdate_noop)
    with result no show "delete_unfollow st r uname = (?ok, st)" by simp
  qed
qed

theorem C10_witness:
  "post_follow example_db 1 ''bob'' = (Inl (HttpError 400 ''Ya sigues a este usuario''), example_db)
   \<and> delete_unfollow example_db 1 ''dave'' =
       (Inr \<lparr>fr_message = ''Dejaste de seguir al usuario'', isFollowing = False\<rparr>, example_db)
   \<and> delete_unfollow half_unfollowed_db 1 ''dave'' =
       (Inr \<lparr>fr_message = ''Dejaste de seguir al usuario'', isFollowing = False\<rparr>, example_db)"
  using C10_follow_unfollow_asymmetry [of example_db "''bob''" bob 1 alice]
        C10_follow_unfollow_asymmetry [of example_db "''dave''" dave 1 alice]
        C10_follow_unfollow_asymmetry [of half_unfollowed_db "''dave''" "dave\<lparr>followers := [1]\<rparr>" 1 alice]
  by (simp add: half_unfollowed_db_def example_defs findOne_username_def findById_def post_follow_def
        delete_unfollow_def pull_def)

end
